theory Spec2Isabelle
  imports Complex_Main "HOL-Library.AList" "HOL-Library.Word" "HOL-Library.Log_Nat"
begin

section \<open>JavaScript numbers\<close>

text \<open>
  A JavaScript \<^verbatim>\<open>number\<close> is an IEEE 754 double: a finite value, which is a rational number
  (\<open>Fin 0\<close> is the positive zero), the negative zero, one of the two infinities, or NaN.
  The arithmetic operators compute the exact result and round it to the nearest double,
  a tie going to the even significand.
\<close>

datatype double = Fin rat | NegZero | PInf | NInf | NaN

text \<open>
  The exponent of a positive rational \<open>a\<close>, the integer \<open>e\<close> with
  \<open>2 powi e \<le> a < 2 powi (e + 1)\<close>.
\<close>

definition ilog2 :: "rat \<Rightarrow> int" where
  "ilog2 a = (if 1 \<le> a then bitlen \<lfloor>a\<rfloor> - 1 else - bitlen (\<lceil>1 / a\<rceil> - 1))"

text \<open>The integer nearest to \<open>r\<close>, the even one of the two when \<open>r\<close> lies halfway.\<close>

definition roundHalfEven :: "rat \<Rightarrow> int" where
  "roundHalfEven r =
     (let f = \<lfloor>r\<rfloor>; d = r - of_int f
      in if d < 1 / 2 then f else if 1 / 2 < d then f + 1 else if even f then f else f + 1)"

text \<open>
  The double nearest to the rational \<open>q\<close>. A double has 53 significant bits, so around a
  value of exponent \<open>e\<close> the doubles are the multiples of \<open>2 powi (e - 52)\<close>; below the exponent
  -1022 the spacing stays that of -1022 (the subnormal numbers). A result whose exponent
  would exceed 1023 is an infinity, and a result that rounds to zero keeps its sign.
\<close>

definition dround :: "rat \<Rightarrow> double" where
  "dround q =
     (if q = 0 then Fin 0
      else
        (let a = \<bar>q\<bar>; e = max (ilog2 a) (- 1022); u = 2 powi (e - 52);
             m = of_int (roundHalfEven (a / u)) * u
         in if 1024 \<le> ilog2 m then (if q < 0 then NInf else PInf)
            else if m = 0 then (if q < 0 then NegZero else Fin 0)
            else Fin (if q < 0 then - m else m)))"

text \<open>The operator \<^verbatim>\<open>+\<close> on two numbers.\<close>

fun dadd :: "double \<Rightarrow> double \<Rightarrow> double" where
  "dadd NaN y = NaN"
| "dadd x NaN = NaN"
| "dadd PInf NInf = NaN"
| "dadd NInf PInf = NaN"
| "dadd PInf y = PInf"
| "dadd NInf y = NInf"
| "dadd x PInf = PInf"
| "dadd x NInf = NInf"
| "dadd NegZero y = y"
| "dadd x NegZero = x"
| "dadd (Fin a) (Fin b) = dround (a + b)"

fun negative :: "double \<Rightarrow> bool" where
  "negative (Fin a) = (a < 0)"
| "negative NegZero = True"
| "negative NInf = True"
| "negative x = False"

text \<open>The absolute value of a finite number; none for the infinities and NaN.\<close>

fun magnitude :: "double \<Rightarrow> rat option" where
  "magnitude (Fin a) = Some \<bar>a\<bar>"
| "magnitude NegZero = Some 0"
| "magnitude x = None"

text \<open>
  The operator \<^verbatim>\<open>/\<close> on two numbers: NaN for 0/0 and for a quotient of infinities, an
  infinity for a division by a zero, a zero for a division by an infinity, the rounded
  quotient otherwise; the sign is the product of the signs.
\<close>

definition ddiv :: "double \<Rightarrow> double \<Rightarrow> double" where
  "ddiv x y =
     (if x = NaN \<or> y = NaN then NaN
      else
        (let neg = (negative x \<noteq> negative y)
         in case (magnitude x, magnitude y) of
              (None, None) \<Rightarrow> NaN
            | (None, Some b) \<Rightarrow> (if neg then NInf else PInf)
            | (Some a, None) \<Rightarrow> (if neg then NegZero else Fin 0)
            | (Some a, Some b) \<Rightarrow>
                if b = 0 then (if a = 0 then NaN else if neg then NInf else PInf)
                else if a = 0 then (if neg then NegZero else Fin 0)
                else dround (if neg then - (a / b) else a / b)))"



text \<open>
  A rational is representable when it is a double as it stands, and a list of rationals
  adds up exactly from \<open>a\<close> when every partial sum, taken from the left, is
  representable: then no addition rounds.
\<close>

definition representable :: "rat \<Rightarrow> bool" where
  "representable q = (dround q = Fin q)"

fun exactSums :: "rat \<Rightarrow> rat list \<Rightarrow> bool" where
  "exactSums a [] = True"
| "exactSums a (c # cs) = (representable (a + c) \<and> exactSums (a + c) cs)"

section \<open>Data model (the shared type declarations)\<close>

text \<open>
  A \<^verbatim>\<open>Date\<close> held in a typed value is its \<^verbatim>\<open>getTime()\<close>, the milliseconds since the epoch.
  An optional field \<^verbatim>\<open>f?: T\<close> is an \<^typ>\<open>'a option\<close>, \<^const>\<open>None\<close> standing for
  \<^verbatim>\<open>undefined\<close>.
\<close>

type_synonym Date = int

datatype AssetType = stock | crypto | future | option_asset

record Asset =
  symbol :: string
  name :: string
  type :: AssetType
  exchange :: "string option"
  sector :: "string option"

record PriceData =
  timestamp :: Date
  "open" :: double
  high :: double
  low :: double
  close :: double
  volume :: double
  vwap :: "double option"

record TechnicalIndicators =
  sma20 :: "double option"
  sma50 :: "double option"
  ema12 :: "double option"
  ema26 :: "double option"
  rsi :: "double option"
  macd :: "double option"
  macdSignal :: "double option"
  macdHistogram :: "double option"
  vwap :: "double option"
  bollingerUpper :: "double option"
  bollingerLower :: "double option"

datatype StrategyType = equity | options | futures | crypto_strategy

datatype StrategyCategory = long | short | spread | straddle | strangle | iron_condor

datatype RiskLevel = low_risk | medium_risk | high_risk

record Strategy =
  strategy_id :: string
  name :: string
  type :: StrategyType
  category :: StrategyCategory
  description :: string
  riskLevel :: RiskLevel
  capitalRequired :: double
  maxLoss :: "double option"
  maxProfit :: "double option"

record ForecastResult =
  strategy :: Strategy
  asset :: Asset
  isValid :: bool
  confidence :: double
  expectedReturn :: double
  rewardRiskRatio :: double
  winProbability :: double
  entryPoints :: "double list"
  exitPoints :: "double list option"
  reasoning :: string
  technicalConditions :: "string list"
  mlFeatures :: "(string \<times> double) list"

datatype TimeFrame = tf_1h | tf_4h | tf_1d | tf_1w | tf_1M | tf_3M | tf_6M | tf_1Y | tf_3Y | tf_5Y | tf_YTD

record ChartData = PriceData +
  indicators :: TechnicalIndicators

datatype js_error = TypeError | NetworkError

section \<open>App.tsx: the chart data of \<^verbatim>\<open>handleAssetSelect\<close>\<close>

text \<open>
  \<^verbatim>\<open>Array.prototype.slice(start, end)\<close>: a negative bound counts from the end of the
  array, both bounds are clamped to the array, and an empty range gives the empty array.
\<close>

definition array_slice :: "'a list \<Rightarrow> int \<Rightarrow> int \<Rightarrow> 'a list" where
  "array_slice xs startIx endIx =
     (let len = int (length xs);
          k = (if startIx < 0 then max (len + startIx) 0 else min startIx len);
          final = (if endIx < 0 then max (len + endIx) 0 else min endIx len)
      in take (nat (final - k)) (drop (nat k) xs))"

text \<open>
  \<^verbatim>\<open>.reduce((sum, p) => sum + p.close, 0)\<close>, a left fold from 0 in which every \<^verbatim>\<open>+\<close> is
  an addition of doubles.
\<close>

definition sumClose :: "PriceData list \<Rightarrow> double" where
  "sumClose ps = foldl (\<lambda>sum p. dadd sum (close p)) (Fin 0) ps"

text \<open>
  The \<^verbatim>\<open>indicators\<close> object built for the bar \<^verbatim>\<open>price\<close> at position \<^verbatim>\<open>index\<close>. The
  fields the object literal does not mention are absent. \<^verbatim>\<open>rsi\<close> and \<^verbatim>\<open>macd\<close> are the
  constants the source writes, each under the comment \<^verbatim>\<open>Placeholder\<close>.
\<close>

definition indicatorsAt :: "PriceData list \<Rightarrow> PriceData \<Rightarrow> nat \<Rightarrow> TechnicalIndicators" where
  "indicatorsAt priceData price index =
     \<lparr> sma20 = (if index \<ge> 19
                 then Some (ddiv (sumClose (array_slice priceData (int index - 19) (int index + 1)))
                              (Fin 20))
                 else None),
       sma50 = (if index \<ge> 49
                 then Some (ddiv (sumClose (array_slice priceData (int index - 49) (int index + 1)))
                              (Fin 50))
                 else None),
       ema12 = None,
       ema26 = None,
       rsi = Some (Fin 50),
       macd = Some (Fin 0),
       macdSignal = None,
       macdHistogram = None,
       vwap = PriceData.vwap price,
       bollingerUpper = None,
       bollingerLower = None \<rparr>"

text \<open>\<^verbatim>\<open>priceData.map((price, index) => ({...price, indicators: {...}}))\<close>.\<close>

definition toChartData :: "PriceData list \<Rightarrow> ChartData list" where
  "toChartData priceData =
     map (\<lambda>(index, price).
            PriceData.extend price (ChartData.fields (indicatorsAt priceData price index)))
         (enumerate 0 priceData)"

record AppState =
  selectedAsset :: "Asset option"
  selectedStrategy :: "Strategy option"
  selectedTimeframe :: TimeFrame
  forecast :: "ForecastResult option"
  chartData :: "ChartData list"
  isLoadingForecast :: bool
  isLoadingChart :: bool

text \<open>
  \<^verbatim>\<open>handleAssetSelect\<close>, with the awaited outcome of \<^verbatim>\<open>priceService.getHistoricalData\<close>
  as the argument \<open>fetched\<close>: a rejection leaves the chart data as it was (the
  \<^verbatim>\<open>catch\<close> only logs), and \<^verbatim>\<open>finally\<close> clears the loading flag on both paths.
\<close>

definition handleAssetSelect :: "js_error + PriceData list \<Rightarrow> Asset \<Rightarrow> AppState \<Rightarrow> AppState" where
  "handleAssetSelect fetched a st =
     (let st1 = st\<lparr> selectedAsset := Some a, forecast := None, isLoadingChart := True \<rparr>
      in case fetched of
           Inr priceData \<Rightarrow> st1\<lparr> chartData := toChartData priceData, isLoadingChart := False \<rparr>
         | Inl e \<Rightarrow> st1\<lparr> isLoadingChart := False \<rparr>)"

section \<open>App.tsx: \<^verbatim>\<open>handleExport\<close>, and the export service of services/api.ts\<close>

text \<open>
  \<^verbatim>\<open>String(n)\<close> for a non-negative integer \<open>n\<close> (the value of \<^verbatim>\<open>Date.now()\<close>): its decimal
  digits.
\<close>

definition digit_char :: "nat \<Rightarrow> char" where
  "digit_char n = ''0123456789'' ! n"

fun showNat :: "nat \<Rightarrow> string" where
  "showNat n = (if n < 10 then [digit_char n] else showNat (n div 10) @ [digit_char (n mod 10)])"

declare showNat.simps [simp del]

datatype ExportType = pdf | csv

fun exportTypeText :: "ExportType \<Rightarrow> string" where
  "exportTypeText pdf = ''pdf''"
| "exportTypeText csv = ''csv''"

datatype DocType = forecast_doc | backtest_doc

type_synonym Blob = string

text \<open>
  The request \<^verbatim>\<open>api.post(url, { data, type }, { responseType: 'blob' })\<close>. What the server
  answers is the argument \<open>post\<close> of the two service functions; each returns the
  requests it sent next to the awaited \<^verbatim>\<open>response.data\<close>, or the rejection.
\<close>

record 'd HttpPost =
  url :: string
  data :: 'd
  type :: DocType

definition exportToPDF ::
  "('d HttpPost \<Rightarrow> js_error + Blob) \<Rightarrow> 'd \<Rightarrow> DocType \<Rightarrow> 'd HttpPost list \<times> (js_error + Blob)" where
  "exportToPDF post d t =
     (let req = \<lparr> url = ''/export/pdf'', data = d, type = t \<rparr> in ([req], post req))"

definition exportToCSV ::
  "('d HttpPost \<Rightarrow> js_error + Blob) \<Rightarrow> 'd \<Rightarrow> DocType \<Rightarrow> 'd HttpPost list \<times> (js_error + Blob)" where
  "exportToCSV post d t =
     (let req = \<lparr> url = ''/export/csv'', data = d, type = t \<rparr> in ([req], post req))"

text \<open>
  What \<^verbatim>\<open>handleExport\<close> does to the world, in order: the requests it sends, the file it
  offers for download (the anchor whose \<^verbatim>\<open>href\<close> is the object URL of a blob and whose
  \<^verbatim>\<open>download\<close> is the file name, clicked once), and what it logs.
\<close>

datatype Effect =
    Post "ForecastResult HttpPost"
  | Download Blob string
  | ConsoleError string

text \<open>\<^verbatim>\<open>${selectedAsset?.symbol}\<close> inside a template literal.\<close>

definition symbolText :: "Asset option \<Rightarrow> string" where
  "symbolText a = (case a of None \<Rightarrow> ''undefined'' | Some x \<Rightarrow> symbol x)"

text \<open>
  \<^verbatim>\<open>handleExport(type)\<close>, with the clock reading \<open>now\<close> of \<^verbatim>\<open>Date.now()\<close>. Without a
  forecast it returns at once. The requested type appears in the file name only.
\<close>

definition handleExport ::
  "(ForecastResult HttpPost \<Rightarrow> js_error + Blob) \<Rightarrow> nat \<Rightarrow> AppState \<Rightarrow> ExportType \<Rightarrow> Effect list" where
  "handleExport post now st ty =
     (case forecast st of
        None \<Rightarrow> []
      | Some f \<Rightarrow>
          (let (sent, res) = exportToPDF post f forecast_doc
           in map Post sent @
              (case res of
                 Inr blob \<Rightarrow>
                   [Download blob
                      (''forecast-'' @ symbolText (selectedAsset st) @ ''-'' @ showNat now @
                       ''.'' @ exportTypeText ty)]
               | Inl e \<Rightarrow> [ConsoleError ''Export failed:''])))"

fun postsOf :: "Effect list \<Rightarrow> ForecastResult HttpPost list" where
  "postsOf [] = []"
| "postsOf (Post r # es) = r # postsOf es"
| "postsOf (e # es) = postsOf es"

fun downloadsOf :: "Effect list \<Rightarrow> (Blob \<times> string) list" where
  "downloadsOf [] = []"
| "downloadsOf (Download b n # es) = (b, n) # downloadsOf es"
| "downloadsOf (e # es) = downloadsOf es"

section \<open>services/api.ts: the response mappers\<close>

text \<open>
  A response body is untyped (\<^verbatim>\<open>item: any\<close>), so the mappers are modelled on JSON
  values. An object is the list of its own properties in insertion order. The Date that
  \<^verbatim>\<open>new Date(v)\<close> constructs from \<open>v\<close> is kept symbolic as \<open>JDate v\<close>.
\<close>

datatype jsval =
    JUndefined
  | JNull
  | JBool bool
  | JNum double
  | JStr string
  | JDate jsval
  | JArr "jsval list"
  | JObj "(string \<times> jsval) list"

text \<open>
  \<^verbatim>\<open>v.k\<close> for the property names the mappers read (none of them an array index or a
  built-in property): a TypeError on \<^verbatim>\<open>undefined\<close> and \<^verbatim>\<open>null\<close>, the own property of an
  object, \<^verbatim>\<open>undefined\<close> otherwise.
\<close>

definition getProp :: "jsval \<Rightarrow> string \<Rightarrow> js_error + jsval" where
  "getProp v k =
     (case v of
        JUndefined \<Rightarrow> Inl TypeError
      | JNull \<Rightarrow> Inl TypeError
      | JObj ps \<Rightarrow> Inr (case map_of ps k of Some x \<Rightarrow> x | None \<Rightarrow> JUndefined)
      | _ \<Rightarrow> Inr JUndefined)"

text \<open>
  The own enumerable properties that \<^verbatim>\<open>{...v}\<close> copies: those of an object, the indexed
  elements of an array or string, none for the other values.
\<close>

definition spreadOf :: "jsval \<Rightarrow> (string \<times> jsval) list" where
  "spreadOf v =
     (case v of
        JObj ps \<Rightarrow> ps
      | JArr xs \<Rightarrow> map (\<lambda>(i, x). (showNat i, x)) (enumerate 0 xs)
      | JStr s \<Rightarrow> map (\<lambda>(i, c). (showNat i, JStr [c])) (enumerate 0 s)
      | _ \<Rightarrow> [])"

text \<open>
  Whether converting \<open>v\<close> to a primitive value throws. A parsed JSON object holds no
  function, so an own property \<^verbatim>\<open>toString\<close> hides \<^verbatim>\<open>Object.prototype.toString\<close> behind a
  value that cannot be called, and the conversion of such an object ends in a TypeError;
  an array is converted by joining the strings of its elements, which throws when
  converting one of them does. Every other value converts.
\<close>

fun toPrimitiveThrows :: "jsval \<Rightarrow> bool" where
  "toPrimitiveThrows (JObj ps) = (''toString'' \<in> set (map fst ps))"
| "toPrimitiveThrows (JArr xs) = list_ex toPrimitiveThrows xs"
| "toPrimitiveThrows v = False"

text \<open>
  \<^verbatim>\<open>new Date(v)\<close>: a Date is copied, any other value is first converted to a primitive,
  which is then parsed as a string or taken as a number (an invalid Date is a Date all
  the same).
\<close>

definition newDate :: "jsval \<Rightarrow> js_error + jsval" where
  "newDate v = (if toPrimitiveThrows v then Inl TypeError else Inr (JDate v))"

fun mapE :: "('a \<Rightarrow> js_error + 'b) \<Rightarrow> 'a list \<Rightarrow> js_error + 'b list" where
  "mapE f [] = Inr []"
| "mapE f (x # xs) =
     (case f x of
        Inl e \<Rightarrow> Inl e
      | Inr y \<Rightarrow> (case mapE f xs of Inl e \<Rightarrow> Inl e | Inr ys \<Rightarrow> Inr (y # ys)))"

text \<open>\<^verbatim>\<open>v.map(f)\<close>: a TypeError unless \<open>v\<close> is an array; the first throw of \<open>f\<close> ends it.\<close>

definition arrayMap :: "jsval \<Rightarrow> (jsval \<Rightarrow> js_error + jsval) \<Rightarrow> js_error + jsval" where
  "arrayMap v f =
     (case v of
        JArr xs \<Rightarrow> (case mapE f xs of Inl e \<Rightarrow> Inl e | Inr ys \<Rightarrow> Inr (JArr ys))
      | _ \<Rightarrow> Inl TypeError)"

text \<open>\<^verbatim>\<open>item => ({ ...item, timestamp: new Date(item.timestamp) })\<close>.\<close>

definition historicalItem :: "jsval \<Rightarrow> js_error + jsval" where
  "historicalItem item =
     (case getProp item ''timestamp'' of
        Inl e \<Rightarrow> Inl e
      | Inr ts \<Rightarrow>
          (case newDate ts of
             Inl e \<Rightarrow> Inl e
           | Inr d \<Rightarrow> Inr (JObj (AList.update ''timestamp'' d (spreadOf item)))))"

text \<open>
  \<^verbatim>\<open>priceService.getHistoricalData\<close>, from the awaited outcome of the GET request (its
  \<^verbatim>\<open>response.data\<close>, or the rejection) to what the function resolves to.
\<close>

definition getHistoricalData :: "js_error + jsval \<Rightarrow> js_error + jsval" where
  "getHistoricalData response =
     (case response of
        Inl e \<Rightarrow> Inl e
      | Inr body \<Rightarrow> arrayMap body historicalItem)"

text \<open>
  \<^verbatim>\<open>trade => ({ ...trade, entryDate: new Date(trade.entryDate),
  exitDate: new Date(trade.exitDate) })\<close>.
\<close>

definition backtestTrade :: "jsval \<Rightarrow> js_error + jsval" where
  "backtestTrade trade =
     (case getProp trade ''entryDate'' of
        Inl e \<Rightarrow> Inl e
      | Inr en \<Rightarrow>
          (case newDate en of
             Inl e \<Rightarrow> Inl e
           | Inr enDate \<Rightarrow>
               (case getProp trade ''exitDate'' of
                  Inl e \<Rightarrow> Inl e
                | Inr ex \<Rightarrow>
                    (case newDate ex of
                       Inl e \<Rightarrow> Inl e
                     | Inr exDate \<Rightarrow>
                         Inr (JObj (AList.update ''exitDate'' exDate
                                     (AList.update ''entryDate'' enDate (spreadOf trade))))))))"

text \<open>
  \<^verbatim>\<open>backtestService.runBacktest\<close>, from the awaited outcome of the POST request. The
  \<^verbatim>\<open>period\<close> of the result is a new object literal with the two dates and nothing else:
  the response's period is not spread into it.
\<close>

definition runBacktest :: "js_error + jsval \<Rightarrow> js_error + jsval" where
  "runBacktest response =
     (case response of
        Inl e \<Rightarrow> Inl e
      | Inr body \<Rightarrow>
          (case getProp body ''period'' of
             Inl e \<Rightarrow> Inl e
           | Inr p \<Rightarrow>
               (case getProp p ''start'' of
                  Inl e \<Rightarrow> Inl e
                | Inr s \<Rightarrow>
                    (case newDate s of
                       Inl e \<Rightarrow> Inl e
                     | Inr sDate \<Rightarrow>
                         (case getProp p ''end'' of
                            Inl e \<Rightarrow> Inl e
                          | Inr en \<Rightarrow>
                              (case newDate en of
                                 Inl e \<Rightarrow> Inl e
                               | Inr enDate \<Rightarrow>
                                   (case getProp body ''trades'' of
                                      Inl e \<Rightarrow> Inl e
                                    | Inr ts \<Rightarrow>
                                        (case arrayMap ts backtestTrade of
                                           Inl e \<Rightarrow> Inl e
                                         | Inr ts' \<Rightarrow>
                                             Inr (JObj (AList.update ''trades'' ts'
                                                   (AList.update ''period''
                                                      (JObj [(''start'', sDate), (''end'', enDate)])
                                                      (spreadOf body))))))))))))"

text \<open>Reading a value back: its own property \<open>k\<close>, and \<^verbatim>\<open>undefined\<close> when it has none.\<close>

definition ownProp :: "jsval \<Rightarrow> string \<Rightarrow> jsval option" where
  "ownProp v k = map_of (spreadOf v) k"

definition propOrUndefined :: "jsval \<Rightarrow> string \<Rightarrow> jsval" where
  "propOrUndefined v k = (case ownProp v k of Some x \<Rightarrow> x | None \<Rightarrow> JUndefined)"

fun isObject :: "jsval \<Rightarrow> bool" where
  "isObject (JObj ps) = True"
| "isObject v = False"

section \<open>The forecast: services/api.ts and the \<^verbatim>\<open>ForecastResult\<close> component\<close>





section \<open>The asset search component: \<^verbatim>\<open>debouncedSearch\<close>\<close>

text \<open>
  A JavaScript string is a sequence of UTF-16 code units, and \<^verbatim>\<open>.length\<close> counts them.
  \<^verbatim>\<open>String.prototype.trim\<close> removes the white space and line terminators of ECMAScript from
  both ends.
\<close>

type_synonym js_string = "16 word list"

definition isWhiteSpace :: "16 word \<Rightarrow> bool" where
  "isWhiteSpace c =
     (c \<in> {0x0009, 0x000A, 0x000B, 0x000C, 0x000D, 0x0020, 0x00A0, 0x1680,
           0x2028, 0x2029, 0x202F, 0x205F, 0x3000, 0xFEFF}
      \<or> (0x2000 \<le> c \<and> c \<le> 0x200A))"

definition trim :: "js_string \<Rightarrow> js_string" where
  "trim s = rev (dropWhile isWhiteSpace (rev (dropWhile isWhiteSpace s)))"

record SearchState =
  searchQuery :: js_string
  searchResults :: "Asset list"
  isLoading :: bool
  showResults :: bool

text \<open>
  The function that \<^verbatim>\<open>debounce(..., 300)\<close> wraps, run on one query: the new component
  state and the queries passed to \<^verbatim>\<open>assetService.searchAssets\<close> (one GET request each).
  The outcome of that request is the argument \<open>searchAssets\<close>. The delay and the
  coalescing of calls by \<^verbatim>\<open>debounce\<close> are not part of the model.
\<close>

definition debouncedSearch ::
  "(js_string \<Rightarrow> js_error + Asset list) \<Rightarrow> js_string \<Rightarrow> SearchState \<Rightarrow> SearchState \<times> js_string list" where
  "debouncedSearch searchAssets query st =
     (if length (trim query) < 2
      then (st\<lparr> searchResults := [], showResults := False \<rparr>, [])
      else
        (let st1 = st\<lparr> isLoading := True \<rparr>
         in case searchAssets query of
              Inr results \<Rightarrow>
                (st1\<lparr> searchResults := results, showResults := True, isLoading := False \<rparr>,
                 [query])
            | Inl e \<Rightarrow> (st1\<lparr> searchResults := [], isLoading := False \<rparr>, [query])))"

section \<open>The backtest engine behind the API\<close>

text \<open>
  The sources hold the client: the declarations of \<^verbatim>\<open>BacktestResult\<close> and \<^verbatim>\<open>TradeResult\<close>,
  the call to \<^verbatim>\<open>/backtest\<close> and the display. The engine that computes these results runs
  behind the API and is not among them, so this section follows the specification's
  section 4.5, and section 3 for the data, whose prices and amounts are reals. Where the
  specification leaves a convention open, the convention is a parameter, except for the
  entry policy, which is fixed below.
\<close>

text \<open>
  Modelled from the spec: the fatal errors of the engine (section 7); the engine is not
  in the sources.
\<close>

datatype EngineError = InvalidInputError | ConfigurationError

text \<open>
  Modelled from the spec: the PriceBar of section 3, "timestamp, open, high, low, close,
  volume"; the engine is not in the sources.
\<close>

record PriceBar =
  barTime :: Date
  barOpen :: real
  barHigh :: real
  barLow :: real
  barClose :: real
  barVolume :: real

text \<open>
  Modelled from the spec: the direction of a trade (section 3), "long/short"; the engine
  is not in the sources.
\<close>

datatype TradeType = long_trade | short_trade

text \<open>
  Modelled from the spec: the TradeResult of section 3, "entry/exit timestamp and price,
  quantity, realized P&L net of commission and slippage, direction, closing reason", under
  the field names of the client's declaration; the engine is not in the sources.
\<close>

record TradeResult =
  entryDate :: Date
  exitDate :: Date
  entryPrice :: real
  exitPrice :: real
  quantity :: real
  pnl :: real
  commission :: real
  slippage :: real
  type :: TradeType
  reason :: string

text \<open>
  Modelled from the spec: the evaluated period of a BacktestResult (section 3); the engine
  is not in the sources.
\<close>

record Period =
  start :: Date
  end' :: Date

text \<open>
  Modelled from the spec: the position held while the state machine of the Backtest
  Simulator (section 4.5) is in its state Entered; the simulator is not in the sources.
\<close>

record OpenPosition =
  openedAt :: Date
  openPrice :: real
  openQuantity :: real

text \<open>
  Modelled from the spec: the states of the simulator's state machine (section 4.5),
  "Flat, Entered, Closed"; the simulator is not in the sources. Closed is the moment a
  TradeResult is recorded, after which the machine is Flat again ("remain Flat until next
  entry"), so the trades recorded so far are kept beside the position.
\<close>

datatype PositionState = Flat | Entered OpenPosition

text \<open>
  Modelled from the spec: the state the simulator carries from bar to bar (section 4.5),
  the position and the trades recorded so far; the simulator is not in the sources.
\<close>

record SimState =
  position :: PositionState
  closedTrades :: "TradeResult list"

text \<open>
  Modelled from the spec: what one backtest run is given besides the price series and the
  initial capital (sections 3, 4.2 and 4.5); the simulator is not in the sources. The
  entry and exit rules of the strategy are predicates over the bars seen so far, the
  current bar last; a satisfied exit rule names the closing reason. The lookback is the
  longest one of the strategy's indicators. Position sizing, commission and slippage are
  functions of capital or price and quantity, and the Sharpe statistic is a function of
  the per-trade returns, since the specification fixes none of these conventions.
\<close>

record Simulation =
  simStrategy :: Strategy
  simAsset :: Asset
  entryRule :: "PriceBar list \<Rightarrow> bool"
  exitRule :: "OpenPosition \<Rightarrow> PriceBar list \<Rightarrow> string option"
  lookback :: nat
  direction :: TradeType
  positionSize :: "real \<Rightarrow> real \<Rightarrow> real"
  commissionFor :: "real \<Rightarrow> real \<Rightarrow> real"
  slippageFor :: "real \<Rightarrow> real \<Rightarrow> real"
  sharpeStatistic :: "real list \<Rightarrow> real option"

text \<open>
  Modelled from the spec: the BacktestResult the simulator produces (section 3), with the
  metrics that are undefined in a degenerate case reported as null (sections 4.5 and 7);
  the simulator is not in the sources.
\<close>

record SimResult =
  resStrategy :: Strategy
  resAsset :: Asset
  resPeriod :: Period
  resTotalReturn :: "real option"
  resWinRate :: real
  resSharpeRatio :: "real option"
  resMaxDrawdown :: real
  resTotalTrades :: nat
  resAvgWin :: "real option"
  resAvgLoss :: "real option"
  resProfitFactor :: "real option"
  resTrades :: "TradeResult list"

text \<open>
  Modelled from the spec: the validation of the price series at the engine's door
  (sections 3, 6 and 7), which is not in the sources: enough bars for the longest
  lookback and at least one, strictly increasing timestamps, non-negative volumes.
\<close>

definition validSeries :: "nat \<Rightarrow> PriceBar list \<Rightarrow> bool" where
  "validSeries n series =
     (series \<noteq> [] \<and> n \<le> length series \<and> sorted_wrt (<) (map barTime series) \<and>
      (\<forall>b \<in> set series. 0 \<le> barVolume b))"

text \<open>
  Modelled from the spec: entering a position (section 4.5), "transition to Entered at the
  bar's close"; the simulator is not in the sources.
\<close>

definition openAt :: "Simulation \<Rightarrow> real \<Rightarrow> PriceBar \<Rightarrow> OpenPosition" where
  "openAt sim capital b =
     \<lparr> openedAt = barTime b, openPrice = barClose b,
       openQuantity = positionSize sim capital (barClose b) \<rparr>"

text \<open>
  Modelled from the spec: the TradeResult recorded when a position is closed at a bar
  (sections 3 and 4.5), "realized P&L net of commission and slippage", both charged on
  entry and on exit; the simulator is not in the sources.
\<close>

definition closeAt :: "Simulation \<Rightarrow> OpenPosition \<Rightarrow> PriceBar \<Rightarrow> string \<Rightarrow> TradeResult" where
  "closeAt sim p b why =
     (let q = openQuantity p;
          c = commissionFor sim (openPrice p) q + commissionFor sim (barClose b) q;
          sl = slippageFor sim (openPrice p) q + slippageFor sim (barClose b) q;
          gross = (case direction sim of
                     long_trade \<Rightarrow> (barClose b - openPrice p) * q
                   | short_trade \<Rightarrow> (openPrice p - barClose b) * q)
      in \<lparr> entryDate = openedAt p, exitDate = barTime b, entryPrice = openPrice p,
           exitPrice = barClose b, quantity = q, pnl = gross - c - sl, commission = c,
           slippage = sl, type = direction sim, reason = why \<rparr>)"

text \<open>
  Modelled from the spec: one bar of the simulator's state machine (section 4.5); the
  simulator is not in the sources. "If Flat, evaluate entry rules; on satisfaction,
  transition to Entered at the bar's close. While Entered, evaluate exit rules each bar;
  on satisfaction, transition to Closed, recording a TradeResult; remain Flat until next
  entry." The bars seen so far end with the current bar, and \<open>final\<close> tells whether it is
  the last bar of the series. The entry policy, which section 4.5 requires to be fixed
  and documented, is: a position is entered at the close of the bar that satisfies the
  entry rule, and no position is entered on the final bar. A position entered there could
  only be force-closed at that same close, and section 8 requires every trade to exit
  after it entered.
\<close>

definition barStep :: "Simulation \<Rightarrow> real \<Rightarrow> PriceBar list \<Rightarrow> bool \<Rightarrow> SimState \<Rightarrow> SimState" where
  "barStep sim capital seen final s =
     (case position s of
        Flat \<Rightarrow>
          if \<not> final \<and> entryRule sim seen
          then s\<lparr> position := Entered (openAt sim capital (last seen)) \<rparr>
          else s
      | Entered p \<Rightarrow>
          (case exitRule sim p seen of
             Some why \<Rightarrow>
               \<lparr> position = Flat,
                 closedTrades = closedTrades s @ [closeAt sim p (last seen) why] \<rparr>
           | None \<Rightarrow> s))"

text \<open>
  Modelled from the spec: the state after the first \<open>n\<close> bars, the bars taken "in
  chronological order" (section 4.5) from the state Flat with no trade; the simulator is
  not in the sources.
\<close>

primrec stateAfter :: "Simulation \<Rightarrow> real \<Rightarrow> PriceBar list \<Rightarrow> nat \<Rightarrow> SimState" where
  "stateAfter sim capital series 0 = \<lparr> position = Flat, closedTrades = [] \<rparr>"
| "stateAfter sim capital series (Suc n) =
     barStep sim capital (take (Suc n) series) (Suc n = length series)
       (stateAfter sim capital series n)"

text \<open>
  Modelled from the spec: the end of the series (section 4.5), "any still-Entered position
  is force-closed at the final bar's close with reason period end"; the simulator is
  not in the sources.
\<close>

definition forceClose :: "Simulation \<Rightarrow> PriceBar list \<Rightarrow> SimState \<Rightarrow> TradeResult list" where
  "forceClose sim series s =
     (case position s of
        Flat \<Rightarrow> closedTrades s
      | Entered p \<Rightarrow> closedTrades s @ [closeAt sim p (last series) ''period end''])"

text \<open>
  Modelled from the spec: the win rate (sections 3 and 8), "wins / totalTrades (0 when no
  trades)", a win being a trade with positive P&L; the simulator is not in the sources.
\<close>

definition winRateOf :: "TradeResult list \<Rightarrow> real" where
  "winRateOf ts =
     (if length ts = 0 then 0
      else real (length (filter (\<lambda>t. 0 < pnl t) ts)) / real (length ts))"

text \<open>
  Modelled from the spec: the profit factor (section 4.5), "gross profit / gross loss
  (undefined, reported as null, when gross loss is 0)"; the simulator is not in the
  sources.
\<close>

definition profitFactorOf :: "TradeResult list \<Rightarrow> real option" where
  "profitFactorOf ts =
     (let grossProfit = sum_list (map pnl (filter (\<lambda>t. 0 < pnl t) ts));
          grossLoss = - sum_list (map pnl (filter (\<lambda>t. pnl t < 0) ts))
      in if grossLoss = 0 then None else Some (grossProfit / grossLoss))"

text \<open>
  Modelled from the spec: the maximum drawdown (section 4.5 and the glossary), the
  "largest peak-to-trough decline in the reconstructed equity curve", the curve starting
  at the initial capital and moving by each trade's P&L; the simulator is not in the
  sources.
\<close>

fun drawdownFrom :: "real \<Rightarrow> real \<Rightarrow> real \<Rightarrow> real list \<Rightarrow> real" where
  "drawdownFrom balance peak worst [] = worst"
| "drawdownFrom balance peak worst (x # xs) =
     (let balance' = balance + x; peak' = max peak balance'
      in drawdownFrom balance' peak' (max worst (peak' - balance')) xs)"

text \<open>
  Modelled from the spec: the maximum drawdown of a list of trades (section 4.5), from an
  equity curve that starts at the initial capital; the simulator is not in the sources.
\<close>

definition maxDrawdownOf :: "real \<Rightarrow> TradeResult list \<Rightarrow> real" where
  "maxDrawdownOf capital ts = drawdownFrom capital capital 0 (map pnl ts)"

text \<open>
  Modelled from the spec: the average win and average loss of section 3, null when there
  is no such trade; the simulator is not in the sources.
\<close>

definition averageOf :: "real list \<Rightarrow> real option" where
  "averageOf xs = (if xs = [] then None else Some (sum_list xs / real (length xs)))"

text \<open>
  Modelled from the spec: the aggregation of the trades into a BacktestResult (sections 3
  and 4.5), "total return = sum of trade P&L / initial capital", the evaluated period
  running from the first bar to the last; the simulator is not in the sources. With no
  capital the returns are undefined and reported as null, as section 7 has it for
  divisions by zero.
\<close>

definition summarize :: "Simulation \<Rightarrow> PriceBar list \<Rightarrow> real \<Rightarrow> TradeResult list \<Rightarrow> SimResult" where
  "summarize sim series capital ts =
     \<lparr> resStrategy = simStrategy sim,
       resAsset = simAsset sim,
       resPeriod = \<lparr> start = barTime (hd series), end' = barTime (last series) \<rparr>,
       resTotalReturn = (if capital = 0 then None else Some (sum_list (map pnl ts) / capital)),
       resWinRate = winRateOf ts,
       resSharpeRatio = (if capital = 0 then None
                         else sharpeStatistic sim (map (\<lambda>t. pnl t / capital) ts)),
       resMaxDrawdown = maxDrawdownOf capital ts,
       resTotalTrades = length ts,
       resAvgWin = averageOf (filter (\<lambda>x. 0 < x) (map pnl ts)),
       resAvgLoss = averageOf (filter (\<lambda>x. x < 0) (map pnl ts)),
       resProfitFactor = profitFactorOf ts,
       resTrades = ts \<rparr>"

text \<open>
  Modelled from the spec: one backtest run (sections 4.5 and 7): validate, take the bars
  in order, force-close, aggregate; the simulator is not in the sources. An invalid
  series is refused with InvalidInputError and no partial result.
\<close>

definition simulateBacktest :: "Simulation \<Rightarrow> PriceBar list \<Rightarrow> real \<Rightarrow> EngineError + SimResult" where
  "simulateBacktest sim series capital =
     (if \<not> validSeries (lookback sim) series then Inl InvalidInputError
      else Inr (summarize sim series capital
                  (forceClose sim series (stateAfter sim capital series (length series)))))"



section \<open>Values for the examples\<close>

text \<open>Bar \<open>k\<close> closes at \<open>k\<close>.\<close>

definition bar :: "nat \<Rightarrow> PriceData" where
  "bar k = \<lparr> timestamp = int k, open = Fin (of_nat k), high = Fin (of_nat k + 1),
             low = Fin (of_nat k), close = Fin (of_nat k), volume = Fin 100, vwap = None \<rparr>"

text \<open>Bar \<open>k\<close> with the close \<^verbatim>\<open>0.1\<close>, the double nearest to one tenth.\<close>

definition tenthBar :: "nat \<Rightarrow> PriceData" where
  "tenthBar k = (bar k)\<lparr> close := dround (1 / 10) \<rparr>"

definition exampleAsset :: Asset where
  "exampleAsset = \<lparr> symbol = ''AAPL'', name = ''Apple Inc.'', type = stock,
                    exchange = Some ''NASDAQ'', sector = None \<rparr>"

definition exampleStrategy :: Strategy where
  "exampleStrategy = \<lparr> strategy_id = ''momentum'', name = ''Long momentum'', type = equity,
                       category = long, description = ''Buy strength'', riskLevel = medium_risk,
                       capitalRequired = Fin 1000, maxLoss = None, maxProfit = None \<rparr>"

definition exampleForecast :: ForecastResult where
  "exampleForecast = \<lparr> ForecastResult.strategy = exampleStrategy,
                       ForecastResult.asset = exampleAsset, isValid = True,
                       confidence = Fin 72, expectedReturn = Fin 40, rewardRiskRatio = Fin 2,
                       winProbability = Fin (1 / 2), entryPoints = [Fin 187], exitPoints = None,
                       reasoning = ''RSI below 30'', technicalConditions = [''RSI < 30''],
                       mlFeatures = [(''rsi'', Fin 28)] \<rparr>"

definition exampleState :: AppState where
  "exampleState = \<lparr> selectedAsset = Some exampleAsset, selectedStrategy = Some exampleStrategy,
                    selectedTimeframe = tf_1d, forecast = Some exampleForecast, chartData = [],
                    isLoadingForecast = False, isLoadingChart = False \<rparr>"

text \<open>A server that answers each export endpoint with a body of its own format.\<close>

definition exampleServer :: "ForecastResult HttpPost \<Rightarrow> js_error + Blob" where
  "exampleServer req = (if url req = ''/export/pdf'' then Inr ''%PDF-1.7'' else Inr ''a,b,c'')"

definition exampleSearchState :: SearchState where
  "exampleSearchState = \<lparr> searchQuery = [], searchResults = [exampleAsset], isLoading = False,
                          showResults = True \<rparr>"

definition exampleBars :: "jsval list" where
  "exampleBars = [JObj [(''timestamp'', JStr ''2024-01-02T00:00:00Z''), (''close'', JNum (Fin 3))]]"

text \<open>A backtest response whose period carries a label beside its two dates.\<close>

definition exampleBacktest :: jsval where
  "exampleBacktest =
     JObj [(''totalReturn'', JNum (Fin 5)),
           (''period'', JObj [(''start'', JStr ''2024-01-01''), (''end'', JStr ''2024-06-30''),
                              (''label'', JStr ''H1 2024'')]),
           (''trades'', JArr [JObj [(''entryDate'', JStr ''2024-02-01''),
                                    (''exitDate'', JStr ''2024-02-09''),
                                    (''pnl'', JNum (Fin 2))]])]"


text \<open>
  A long strategy that enters whenever it is flat and takes profit two points above its
  entry, one unit per trade, free of costs.
\<close>

definition exampleSim :: Simulation where
  "exampleSim = \<lparr> simStrategy = exampleStrategy, simAsset = exampleAsset,
                  entryRule = (\<lambda>seen. True),
                  exitRule = (\<lambda>p seen. if openPrice p + 2 \<le> barClose (last seen)
                                         then Some ''target'' else None),
                  lookback = 1, direction = long_trade,
                  positionSize = (\<lambda>capital price. 1),
                  commissionFor = (\<lambda>price q. 0),
                  slippageFor = (\<lambda>price q. 0),
                  sharpeStatistic = (\<lambda>rs. None) \<rparr>"

text \<open>The bar at time \<open>k\<close> that trades at the one price \<open>c\<close>.\<close>

definition quote :: "nat \<Rightarrow> real \<Rightarrow> PriceBar" where
  "quote k c = \<lparr> barTime = int k, barOpen = c, barHigh = c, barLow = c, barClose = c,
                 barVolume = 100 \<rparr>"

text \<open>Four bars that close at 10, 12, 11 and 9.\<close>

definition exampleSeries :: "PriceBar list" where
  "exampleSeries = [quote 1 10, quote 2 12, quote 3 11, quote 4 9]"

text \<open>The two trades of the example strategy on these bars: a win, then a loss.\<close>

definition exampleTrades :: "TradeResult list" where
  "exampleTrades =
     [\<lparr> entryDate = 1, exitDate = 2, entryPrice = 10, exitPrice = 12, quantity = 1, pnl = 2,
        commission = 0, slippage = 0, type = long_trade, reason = ''target'' \<rparr>,
      \<lparr> entryDate = 3, exitDate = 4, entryPrice = 11, exitPrice = 9, quantity = 1, pnl = - 2,
        commission = 0, slippage = 0, type = long_trade, reason = ''period end'' \<rparr>]"

section \<open>Evaluating the arithmetic of doubles\<close>

lemma floor_rat_numeral:
  "\<lfloor>numeral a / numeral b :: rat\<rfloor> = numeral a div numeral b"
  "\<lfloor>1 / numeral b :: rat\<rfloor> = 1 div numeral b"
  using floor_divide_of_int_eq [of "numeral a" "numeral b", where ?'a = rat]
        floor_divide_of_int_eq [of 1 "numeral b", where ?'a = rat]
  by simp_all

lemma ceiling_rat_numeral:
  "\<lceil>numeral a / numeral b :: rat\<rceil> = - ((- numeral a) div numeral b)"
  "\<lceil>1 / numeral b :: rat\<rceil> = - ((- 1) div numeral b)"
  using floor_divide_of_int_eq [of "- numeral a" "numeral b", where ?'a = rat]
        floor_divide_of_int_eq [of "- 1" "numeral b", where ?'a = rat]
  by (simp_all add: ceiling_def)

lemma bitlen_numeral:
  "bitlen (numeral (Num.Bit0 n)) = bitlen (numeral n) + 1"
  "bitlen (numeral (Num.Bit1 n)) = bitlen (numeral n) + 1"
  "bitlen (numeral Num.One) = 1"
  "bitlen 1 = 1"
  "bitlen (- numeral n) = 0"
  by (subst compute_bitlen; simp)+

lemma powi_neg_numeral: "(x::rat) powi (- numeral n) = 1 / x ^ numeral n"
  by (simp add: power_int_minus divide_inverse)

lemmas dround_eval = dround_def ilog2_def roundHalfEven_def Let_def bitlen_numeral
  powi_neg_numeral floor_rat_numeral ceiling_rat_numeral

lemma dround_zero: "dround 0 = Fin 0"
  by (simp add: dround_def)

lemma tenth: "dround (1 / 10) = Fin (3602879701896397 / 36028797018963968)"
  by (simp add: dround_eval)

lemma foldl_exact:
  "exactSums a cs \<Longrightarrow> foldl dadd (Fin a) (map Fin cs) = Fin (a + sum_list cs)"
  by (induction cs arbitrary: a) (simp_all add: representable_def add.assoc)

lemma ddiv_positive: "0 < b \<Longrightarrow> ddiv (Fin a) (Fin b) = dround (a / b)"
  by (cases "a < 0") (auto simp: ddiv_def dround_zero abs_if)

section \<open>The chart indicators\<close>

lemma slice_window:
  assumes "i < length xs" and "n \<le> i"
  shows "array_slice xs (int i - int n) (int i + 1) = take (Suc n) (drop (i - n) xs)"
  using assms
  by (simp add: array_slice_def Let_def min_def nat_diff_distrib' Suc_diff_le nat_add_distrib)

lemma window_nth:
  assumes "i < length xs" and "n \<le> i"
  shows "map f (take (Suc n) (drop (i - n) xs)) = map (\<lambda>k. f (xs ! k)) [i - n..<Suc i]"
proof (rule nth_equalityI)
  show "length (map f (take (Suc n) (drop (i - n) xs))) =
        length (map (\<lambda>k. f (xs ! k)) [i - n..<Suc i])"
    using assms by (simp del: upt_Suc)
next
  fix j
  assume "j < length (map f (take (Suc n) (drop (i - n) xs)))"
  then have "j < Suc n"
    by simp
  then show "map f (take (Suc n) (drop (i - n) xs)) ! j =
             map (\<lambda>k. f (xs ! k)) [i - n..<Suc i] ! j"
    using assms by (simp add: add.commute del: upt_Suc)
qed

lemma sumClose_fold: "sumClose ps = foldl dadd (Fin 0) (map close ps)"
  by (simp add: sumClose_def foldl_map)

lemma sumClose_window:
  assumes "i < length ps" and "n \<le> i"
  shows "sumClose (array_slice ps (int i - int n) (int i + 1)) =
         foldl dadd (Fin 0) (map (\<lambda>k. close (ps ! k)) [i - n..<Suc i])"
  using assms by (simp only: slice_window sumClose_fold window_nth)

lemma toChartData_nth:
  "i < length ps \<Longrightarrow> indicators (toChartData ps ! i) = indicatorsAt ps (ps ! i) i"
  by (simp add: toChartData_def nth_enumerate_eq PriceData.extend_def ChartData.fields_def)

lemma sma_rounded:
  assumes "i < length ps"
  shows "sma20 (indicators (toChartData ps ! i)) =
           (if 19 \<le> i
            then Some (ddiv (foldl dadd (Fin 0) (map (\<lambda>k. close (ps ! k)) [i - 19..<Suc i]))
                         (Fin 20))
            else None)"
    and "sma50 (indicators (toChartData ps ! i)) =
           (if 49 \<le> i
            then Some (ddiv (foldl dadd (Fin 0) (map (\<lambda>k. close (ps ! k)) [i - 49..<Suc i]))
                         (Fin 50))
            else None)"
  using assms sumClose_window [of i ps 19] sumClose_window [of i ps 49]
  by (simp_all add: toChartData_nth indicatorsAt_def)

lemma mean_exact:
  assumes "exactSums 0 cs" and "representable (sum_list cs / n)" and "0 < n"
  shows "ddiv (foldl dadd (Fin 0) (map Fin cs)) (Fin n) = Fin (sum_list cs / n)"
  using assms foldl_exact [of 0 cs] by (simp add: ddiv_positive representable_def)

lemma close_bar: "close (bar k) = Fin (of_nat k)"
  by (simp add: bar_def)

lemma handleAssetSelect_chartData:
  "chartData (handleAssetSelect (Inr ps) a st) = toChartData ps"
  by (simp add: handleAssetSelect_def)

text \<open>
  Claim C1, as amended. For a bar at position \<open>i\<close> of the series, the 20-bar average is
  undefined before \<open>i = 19\<close>, and from there on it is the mean of the closes of bars
  \<open>i - 19, \<dots>, i\<close> as double arithmetic computes it: the closes are added from the left,
  starting from 0, each addition rounded, and the sum is divided by 20 and rounded. It is
  the arithmetic mean itself whenever no addition rounds and the mean is a double. The
  same holds of the 50-bar average with bars \<open>i - 49, \<dots>, i\<close>.
\<close>

theorem sma_window_rounded_mean:
  assumes "i < length ps"
  shows "sma20 (indicators (toChartData ps ! i)) =
           (if 19 \<le> i
            then Some (ddiv (foldl dadd (Fin 0) (map (\<lambda>k. close (ps ! k)) [i - 19..<Suc i]))
                         (Fin 20))
            else None) \<and>
         sma50 (indicators (toChartData ps ! i)) =
           (if 49 \<le> i
            then Some (ddiv (foldl dadd (Fin 0) (map (\<lambda>k. close (ps ! k)) [i - 49..<Suc i]))
                         (Fin 50))
            else None) \<and>
         (\<forall>cs. 19 \<le> i \<and> map (\<lambda>k. close (ps ! k)) [i - 19..<Suc i] = map Fin cs \<and>
               exactSums 0 cs \<and> representable (sum_list cs / 20) \<longrightarrow>
               sma20 (indicators (toChartData ps ! i)) = Some (Fin (sum_list cs / 20))) \<and>
         (\<forall>cs. 49 \<le> i \<and> map (\<lambda>k. close (ps ! k)) [i - 49..<Suc i] = map Fin cs \<and>
               exactSums 0 cs \<and> representable (sum_list cs / 50) \<longrightarrow>
               sma50 (indicators (toChartData ps ! i)) = Some (Fin (sum_list cs / 50)))"
  using sma_rounded [OF assms] mean_exact [of _ 20] mean_exact [of _ 50] by simp

lemma bar_closes:
  "n \<le> 60 \<Longrightarrow> map (\<lambda>k. close (map bar [0..<60] ! k)) [m..<n] = map Fin (map of_nat [m..<n])"
  by (simp add: close_bar)

lemma exact_40_60: "exactSums 0 (map of_nat [40..<60])"
  by (simp add: representable_def dround_eval)

lemma exact_10_60: "exactSums 0 (map of_nat [10..<60])"
  by (simp add: representable_def dround_eval)

theorem sma_window_rounded_mean_witness:
  "59 < length (map bar [0..<60]) \<and>
   map (\<lambda>k. close (map bar [0..<60] ! k)) [59 - 19..<Suc 59] = map Fin (map of_nat [40..<60]) \<and>
   exactSums 0 (map of_nat [40..<60]) \<and> representable (sum_list (map of_nat [40..<60]) / 20) \<and>
   sma20 (indicators (toChartData (map bar [0..<60]) ! 59)) = Some (Fin (99 / 2)) \<and>
   map (\<lambda>k. close (map bar [0..<60] ! k)) [59 - 49..<Suc 59] = map Fin (map of_nat [10..<60]) \<and>
   exactSums 0 (map of_nat [10..<60]) \<and> representable (sum_list (map of_nat [10..<60]) / 50) \<and>
   sma50 (indicators (toChartData (map bar [0..<60]) ! 59)) = Some (Fin (69 / 2))"
proof -
  have w20: "map (\<lambda>k. close (map bar [0..<60] ! k)) [59 - 19..<Suc 59] =
             map Fin (map of_nat [40..<60])"
    using bar_closes [of 60 40] by simp
  have w50: "map (\<lambda>k. close (map bar [0..<60] ! k)) [59 - 49..<Suc 59] =
             map Fin (map of_nat [10..<60])"
    using bar_closes [of 60 10] by simp
  have s20: "sum_list (map of_nat [40..<60]) / 20 = (99 / 2 :: rat)"
    by simp
  have s50: "sum_list (map of_nat [10..<60]) / 50 = (69 / 2 :: rat)"
    by simp
  have r: "representable (99 / 2)" "representable (69 / 2)"
    by (simp_all add: representable_def dround_eval)
  have len: "59 < length (map bar [0..<60])"
    by simp
  have r20: "representable (sum_list (map of_nat [40..<60]) / 20)"
    and r50: "representable (sum_list (map of_nat [10..<60]) / 50)"
    using r by (simp_all only: s20 s50)
  note both = sma_window_rounded_mean [OF len]
  have a: "sma20 (indicators (toChartData (map bar [0..<60]) ! 59)) =
             Some (Fin (sum_list (map of_nat [40..<60]) / 20))"
  proof (rule both [THEN conjunct2, THEN conjunct2, THEN conjunct1, rule_format])
    show "19 \<le> (59::nat) \<and>
          map (\<lambda>k. close (map bar [0..<60] ! k)) [59 - 19..<Suc 59] =
            map Fin (map of_nat [40..<60]) \<and>
          exactSums 0 (map of_nat [40..<60]) \<and>
          representable (sum_list (map of_nat [40..<60]) / 20)"
      by (intro conjI, simp, rule w20, rule exact_40_60, rule r20)
  qed
  have b: "sma50 (indicators (toChartData (map bar [0..<60]) ! 59)) =
             Some (Fin (sum_list (map of_nat [10..<60]) / 50))"
  proof (rule both [THEN conjunct2, THEN conjunct2, THEN conjunct2, rule_format])
    show "49 \<le> (59::nat) \<and>
          map (\<lambda>k. close (map bar [0..<60] ! k)) [59 - 49..<Suc 59] =
            map Fin (map of_nat [10..<60]) \<and>
          exactSums 0 (map of_nat [10..<60]) \<and>
          representable (sum_list (map of_nat [10..<60]) / 50)"
      by (intro conjI, simp, rule w50, rule exact_10_60, rule r50)
  qed
  show ?thesis
    using len w20 w50 exact_40_60 exact_10_60 r a b by (simp only: s20 s50 simp_thms)
qed

lemma replicate_20:
  "replicate 20 x = [x, x, x, x, x, x, x, x, x, x, x, x, x, x, x, x, x, x, x, x]"
  by (simp add: eval_nat_numeral)

lemma tenths_sum:
  "foldl dadd (Fin 0) (replicate 20 (Fin (3602879701896397 / 36028797018963968))) =
     Fin (4503599627370497 / 2251799813685248)"
  by (simp add: replicate_20 dround_eval)

lemma tenths_mean:
  "ddiv (Fin (4503599627370497 / 2251799813685248)) (Fin 20) =
     Fin (7205759403792795 / 72057594037927936)"
  by (simp add: ddiv_def dround_eval)

lemma tenthBar_closes:
  "map (\<lambda>k. close (map tenthBar [0..<20] ! k)) [0..<20] =
     replicate 20 (Fin (3602879701896397 / 36028797018963968))"
proof -
  have "map (\<lambda>k. close (map tenthBar [0..<20] ! k)) [0..<20] =
        map (\<lambda>k. Fin (3602879701896397 / 36028797018963968)) [0..<20]"
    by (rule map_cong) (simp_all add: tenthBar_def tenth)
  then show ?thesis
    by (simp only: map_replicate_const length_upt) simp
qed

text \<open>
  The claim as written fails on 20 bars that all close at \<^verbatim>\<open>0.1\<close>, the double
  3602879701896397 / 36028797018963968. The arithmetic mean of the 20 closes is that
  double itself, and the 20-bar average of the last bar is
  \<^verbatim>\<open>0.10000000000000002\<close>, the next double above it: the 20 rounded additions give
  \<^verbatim>\<open>2.0000000000000004\<close>.
\<close>

theorem sma20_of_tenths_is_not_the_mean:
  "map close (map tenthBar [0..<20]) =
     replicate 20 (Fin (3602879701896397 / 36028797018963968)) \<and>
   sum_list (replicate 20 (3602879701896397 / 36028797018963968 :: rat)) / 20 =
     3602879701896397 / 36028797018963968 \<and>
   sma20 (indicators (toChartData (map tenthBar [0..<20]) ! 19)) =
     Some (Fin (7205759403792795 / 72057594037927936)) \<and>
   (7205759403792795 / 72057594037927936 :: rat) \<noteq> 3602879701896397 / 36028797018963968"
proof -
  have c: "map close (map tenthBar [0..<20]) =
           replicate 20 (Fin (3602879701896397 / 36028797018963968))"
    by (simp only: map_map o_def) (simp add: tenthBar_def tenth map_replicate_const)
  have m: "sum_list (replicate 20 (3602879701896397 / 36028797018963968 :: rat)) / 20 =
           3602879701896397 / 36028797018963968"
    by (simp add: sum_list_replicate)
  have "sma20 (indicators (toChartData (map tenthBar [0..<20]) ! 19)) =
        Some (ddiv (foldl dadd (Fin 0)
                      (map (\<lambda>k. close (map tenthBar [0..<20] ! k)) [19 - 19..<Suc 19]))
                (Fin 20))"
    using sma_rounded(1) [of 19 "map tenthBar [0..<20]"] by simp
  also have "[19 - 19..<Suc 19] = [0..<20]"
    by simp
  finally have s: "sma20 (indicators (toChartData (map tenthBar [0..<20]) ! 19)) =
                   Some (Fin (7205759403792795 / 72057594037927936))"
    by (simp only: tenthBar_closes tenths_sum tenths_mean)
  show ?thesis
    using c m s by simp
qed

section \<open>No lookahead in the chart indicators\<close>

lemma window_prefix:
  assumes "n \<le> i"
  shows "take (Suc n) (drop (i - n) xs) = drop (i - n) (take (Suc i) xs)"
proof -
  have "Suc i - (i - n) = Suc n"
    using assms by arith
  then show ?thesis
    by (simp only: drop_take)
qed

lemma indicatorsAt_prefix:
  assumes "i < length xs" and "i < length ys" and "take (Suc i) xs = take (Suc i) ys"
  shows "indicatorsAt xs (xs ! i) i = indicatorsAt ys (ys ! i) i"
proof -
  have nth: "xs ! i = ys ! i"
    using assms by (metis lessI nth_take)
  have s: "array_slice xs (int i - int n) (int i + 1) = array_slice ys (int i - int n) (int i + 1)"
    if "n \<le> i" for n
  proof -
    have "array_slice xs (int i - int n) (int i + 1) = take (Suc n) (drop (i - n) xs)"
      using assms(1) that by (rule slice_window)
    also have "\<dots> = drop (i - n) (take (Suc i) xs)"
      using that by (rule window_prefix)
    also have "\<dots> = drop (i - n) (take (Suc i) ys)"
      by (simp only: assms(3))
    also have "\<dots> = take (Suc n) (drop (i - n) ys)"
      using that by (rule window_prefix [symmetric])
    also have "\<dots> = array_slice ys (int i - int n) (int i + 1)"
      using assms(2) that by (rule slice_window [symmetric])
    finally show ?thesis .
  qed
  show ?thesis
    using s [of 19] s [of 49] by (simp add: indicatorsAt_def nth)
qed

text \<open>
  Claim C3. Two price series that agree on bars \<open>0, \<dots>, i\<close> get the same indicator
  values at bar \<open>i\<close>, whatever their later bars are.
\<close>

theorem no_lookahead:
  assumes "i < length xs" and "i < length ys" and "take (Suc i) xs = take (Suc i) ys"
  shows "indicators (toChartData xs ! i) = indicators (toChartData ys ! i)"
proof -
  have "indicators (toChartData xs ! i) = indicatorsAt xs (xs ! i) i"
    using assms(1) by (rule toChartData_nth)
  also have "\<dots> = indicatorsAt ys (ys ! i) i"
    using assms by (rule indicatorsAt_prefix)
  also have "\<dots> = indicators (toChartData ys ! i)"
    using assms(2) by (rule toChartData_nth [symmetric])
  finally show ?thesis .
qed

theorem no_lookahead_witness:
  "19 < length (map bar [0..<25]) \<and> 19 < length (map bar [0..<20] @ [bar 7]) \<and>
   take (Suc 19) (map bar [0..<25]) = take (Suc 19) (map bar [0..<20] @ [bar 7]) \<and>
   map bar [0..<25] ! 20 \<noteq> (map bar [0..<20] @ [bar 7]) ! 20 \<and>
   indicators (toChartData (map bar [0..<25]) ! 19) =
     indicators (toChartData (map bar [0..<20] @ [bar 7]) ! 19)"
proof -
  have "take (Suc 19) (map bar [0..<25]) = take (Suc 19) (map bar [0..<20] @ [bar 7])"
    by (simp add: take_map)
  moreover have "map bar [0..<25] ! 20 \<noteq> (map bar [0..<20] @ [bar 7]) ! 20"
    by (simp add: nth_append bar_def)
  ultimately show ?thesis
    using no_lookahead [of 19 "map bar [0..<25]" "map bar [0..<20] @ [bar 7]"] by simp
qed

section \<open>The RSI of the chart\<close>

lemma rsi_constant: "i < length ps \<Longrightarrow> rsi (indicators (toChartData ps ! i)) = Some (Fin 50)"
  by (simp add: toChartData_nth indicatorsAt_def)

text \<open>
  Claim C2. On a series whose every change is a gain (bar \<open>k\<close> closes at \<open>k\<close>), the RSI
  attached to the last of 16 bars is the constant 50 of the source, not 100.
\<close>

theorem rsi_placeholder_on_gains:
  "rsi (indicators (toChartData (map bar [0..<16]) ! 15)) = Some (Fin 50)"
  by (simp add: toChartData_nth indicatorsAt_def)

section \<open>Exporting a forecast\<close>

lemma handleExport_without_forecast:
  "forecast st = None \<Longrightarrow> handleExport post now st ty = []"
  by (simp add: handleExport_def)

text \<open>
  Claim C8. With a forecast on screen, an export of either type sends exactly one
  request, the forecast to \<^verbatim>\<open>/export/pdf\<close> with document type forecast. When the server
  answers with a blob, that blob is offered for download once: under a name that ends in
  \<^verbatim>\<open>.pdf\<close> when the requested type is pdf, and the same blob under the same name ending
  in \<^verbatim>\<open>.csv\<close> when the requested type is csv. When the request fails nothing is
  offered.
\<close>

theorem handleExport_always_pdf:
  assumes "forecast st = Some f"
  shows "postsOf (handleExport post now st ty) =
           [\<lparr> url = ''/export/pdf'', data = f, type = forecast_doc \<rparr>] \<and>
         (\<forall>blob. post \<lparr> url = ''/export/pdf'', data = f, type = forecast_doc \<rparr> = Inr blob \<longrightarrow>
            downloadsOf (handleExport post now st pdf) =
              [(blob, ''forecast-'' @ symbolText (selectedAsset st) @ ''-'' @ showNat now @
                      ''.pdf'')] \<and>
            downloadsOf (handleExport post now st csv) =
              [(blob, ''forecast-'' @ symbolText (selectedAsset st) @ ''-'' @ showNat now @
                      ''.csv'')]) \<and>
         (\<forall>e. post \<lparr> url = ''/export/pdf'', data = f, type = forecast_doc \<rparr> = Inl e \<longrightarrow>
            downloadsOf (handleExport post now st ty) = [])"
  using assms by (auto simp: handleExport_def exportToPDF_def Let_def split: sum.splits)

lemma showNat_example: "showNat 1700000000000 = ''1700000000000''"
  by (simp add: showNat.simps digit_char_def)

theorem handleExport_always_pdf_witness:
  "forecast exampleState = Some exampleForecast \<and>
   exampleServer \<lparr> url = ''/export/pdf'', data = exampleForecast, type = forecast_doc \<rparr> =
     Inr ''%PDF-1.7'' \<and>
   postsOf (handleExport exampleServer 1700000000000 exampleState pdf) =
     [\<lparr> url = ''/export/pdf'', data = exampleForecast, type = forecast_doc \<rparr>] \<and>
   postsOf (handleExport exampleServer 1700000000000 exampleState csv) =
     [\<lparr> url = ''/export/pdf'', data = exampleForecast, type = forecast_doc \<rparr>] \<and>
   downloadsOf (handleExport exampleServer 1700000000000 exampleState pdf) =
     [(''%PDF-1.7'', ''forecast-AAPL-1700000000000.pdf'')] \<and>
   downloadsOf (handleExport exampleServer 1700000000000 exampleState csv) =
     [(''%PDF-1.7'', ''forecast-AAPL-1700000000000.csv'')] \<and>
   downloadsOf (handleExport (\<lambda>req. Inl NetworkError) 1700000000000 exampleState csv) = []"
proof -
  have f: "forecast exampleState = Some exampleForecast"
    by (simp add: exampleState_def)
  have s: "exampleServer \<lparr> url = ''/export/pdf'', data = exampleForecast, type = forecast_doc \<rparr>
             = Inr ''%PDF-1.7''"
    by (simp add: exampleServer_def)
  have n: "symbolText (selectedAsset exampleState) = ''AAPL''"
    by (simp add: symbolText_def exampleState_def exampleAsset_def)
  show ?thesis
    using handleExport_always_pdf [OF f, of exampleServer 1700000000000 pdf]
          handleExport_always_pdf [OF f, of exampleServer 1700000000000 csv]
          handleExport_always_pdf [OF f, of "\<lambda>req. Inl NetworkError" 1700000000000 csv] f s n
    by (simp add: showNat_example)
qed

section \<open>Searching for an asset\<close>

text \<open>
  Claim C10. A query whose trimmed length is below 2 issues no search request, empties
  the results and hides the dropdown; a query of trimmed length at least 2 issues exactly
  one request, for the query as typed.
\<close>

theorem short_query_no_search:
  "(length (trim q) < 2 \<longrightarrow>
      snd (debouncedSearch searchAssets q st) = [] \<and>
      searchResults (fst (debouncedSearch searchAssets q st)) = [] \<and>
      showResults (fst (debouncedSearch searchAssets q st)) = False) \<and>
   (2 \<le> length (trim q) \<longrightarrow> snd (debouncedSearch searchAssets q st) = [q])"
  by (auto simp: debouncedSearch_def Let_def split: sum.splits)

theorem short_query_no_search_witness:
  "length (trim [0x20, 0x61, 0x09]) < 2 \<and>
   snd (debouncedSearch (\<lambda>q. Inr [exampleAsset]) [0x20, 0x61, 0x09] exampleSearchState) = [] \<and>
   searchResults (fst (debouncedSearch (\<lambda>q. Inr [exampleAsset]) [0x20, 0x61, 0x09] exampleSearchState)) = [] \<and>
   showResults (fst (debouncedSearch (\<lambda>q. Inr [exampleAsset]) [0x20, 0x61, 0x09] exampleSearchState)) = False \<and>
   2 \<le> length (trim [0x20, 0x61, 0x61]) \<and>
   snd (debouncedSearch (\<lambda>q. Inr [exampleAsset]) [0x20, 0x61, 0x61] exampleSearchState) = [[0x20, 0x61, 0x61]]"
proof -
  have a: "length (trim [0x20, 0x61, 0x09]) < 2" and b: "2 \<le> length (trim [0x20, 0x61, 0x61])"
    by (simp_all add: trim_def isWhiteSpace_def)
  show ?thesis
    using short_query_no_search [of "[0x20, 0x61, 0x09]" "\<lambda>q. Inr [exampleAsset]" exampleSearchState]
          short_query_no_search [of "[0x20, 0x61, 0x61]" "\<lambda>q. Inr [exampleAsset]" exampleSearchState]
          a b
    by simp
qed

section \<open>The response mappers\<close>

lemma mapE_Inr:
  "(\<And>x. x \<in> set xs \<Longrightarrow> f x = Inr (g x)) \<Longrightarrow> mapE f xs = Inr (map g xs)"
  by (induction xs) auto

lemma getProp_object: "isObject v \<Longrightarrow> getProp v k = Inr (propOrUndefined v k)"
  by (cases v) (simp_all add: getProp_def propOrUndefined_def ownProp_def spreadOf_def)

lemma ownProp_update:
  "ownProp (JObj (AList.update a v ps)) k = (if k = a then Some v else map_of ps k)"
  by (simp add: ownProp_def spreadOf_def update_conv')

lemma newDate_converts: "\<not> toPrimitiveThrows v \<Longrightarrow> newDate v = Inr (JDate v)"
  by (simp add: newDate_def)

lemma newDate_throws: "toPrimitiveThrows v \<Longrightarrow> newDate v = Inl TypeError"
  by (simp add: newDate_def)

lemma getHistoricalData_uncallable_toString:
  "getHistoricalData (Inr (JArr [JObj [(''timestamp'', JObj [(''toString'', JNum (Fin 1))])]])) =
     Inl TypeError"
  by (simp add: getHistoricalData_def arrayMap_def historicalItem_def getProp_def newDate_def)

lemma historicalItem_object:
  "isObject item \<Longrightarrow> \<not> toPrimitiveThrows (propOrUndefined item ''timestamp'') \<Longrightarrow>
     historicalItem item =
       Inr (JObj (AList.update ''timestamp'' (JDate (propOrUndefined item ''timestamp''))
                   (spreadOf item)))"
  by (simp add: historicalItem_def getProp_object newDate_converts)

lemma backtestTrade_object:
  "isObject trade \<Longrightarrow> \<not> toPrimitiveThrows (propOrUndefined trade ''entryDate'') \<Longrightarrow>
   \<not> toPrimitiveThrows (propOrUndefined trade ''exitDate'') \<Longrightarrow>
     backtestTrade trade =
       Inr (JObj (AList.update ''exitDate'' (JDate (propOrUndefined trade ''exitDate''))
                   (AList.update ''entryDate'' (JDate (propOrUndefined trade ''entryDate''))
                      (spreadOf trade))))"
  by (simp add: backtestTrade_def getProp_object newDate_converts)

lemma getHistoricalData_frame:
  assumes "\<forall>x \<in> set items. isObject x \<and> \<not> toPrimitiveThrows (propOrUndefined x ''timestamp'')"
  shows "\<exists>out. getHistoricalData (Inr (JArr items)) = Inr (JArr out) \<and>
           length out = length items \<and>
           (\<forall>i < length items. isObject (out ! i) \<and>
              (\<forall>k. ownProp (out ! i) k =
                 (if k = ''timestamp''
                  then Some (JDate (propOrUndefined (items ! i) ''timestamp''))
                  else ownProp (items ! i) k)))"
proof -
  let ?g = "\<lambda>item. JObj (AList.update ''timestamp'' (JDate (propOrUndefined item ''timestamp''))
                        (spreadOf item))"
  have "mapE historicalItem items = Inr (map ?g items)"
    using assms by (intro mapE_Inr) (simp add: historicalItem_object)
  then have "getHistoricalData (Inr (JArr items)) = Inr (JArr (map ?g items))"
    by (simp add: getHistoricalData_def arrayMap_def)
  moreover have "\<forall>i < length items. isObject (map ?g items ! i) \<and>
              (\<forall>k. ownProp (map ?g items ! i) k =
                 (if k = ''timestamp''
                  then Some (JDate (propOrUndefined (items ! i) ''timestamp''))
                  else ownProp (items ! i) k))"
    by (simp add: ownProp_update) (simp add: ownProp_def)
  ultimately show ?thesis
    by (intro exI [of _ "map ?g items"]) simp
qed

lemma runBacktest_frame:
  assumes "isObject body" and "ownProp body ''period'' = Some p" and "isObject p"
    and "\<not> toPrimitiveThrows (propOrUndefined p ''start'')"
    and "\<not> toPrimitiveThrows (propOrUndefined p ''end'')"
    and "ownProp body ''trades'' = Some (JArr ts)"
    and "\<forall>x \<in> set ts. isObject x \<and> \<not> toPrimitiveThrows (propOrUndefined x ''entryDate'') \<and>
           \<not> toPrimitiveThrows (propOrUndefined x ''exitDate'')"
  shows "\<exists>res out. runBacktest (Inr body) = Inr res \<and> isObject res \<and>
           (\<forall>k. ownProp res k =
              (if k = ''trades'' then Some (JArr out)
               else if k = ''period''
               then Some (JObj [(''start'', JDate (propOrUndefined p ''start'')),
                                (''end'', JDate (propOrUndefined p ''end''))])
               else ownProp body k)) \<and>
           length out = length ts \<and>
           (\<forall>i < length ts. isObject (out ! i) \<and>
              (\<forall>k. ownProp (out ! i) k =
                 (if k = ''exitDate'' then Some (JDate (propOrUndefined (ts ! i) ''exitDate''))
                  else if k = ''entryDate''
                  then Some (JDate (propOrUndefined (ts ! i) ''entryDate''))
                  else ownProp (ts ! i) k)))"
proof -
  let ?g = "\<lambda>trade. JObj (AList.update ''exitDate'' (JDate (propOrUndefined trade ''exitDate''))
                   (AList.update ''entryDate'' (JDate (propOrUndefined trade ''entryDate''))
                      (spreadOf trade)))"
  let ?res = "JObj (AList.update ''trades'' (JArr (map ?g ts))
                 (AList.update ''period''
                    (JObj [(''start'', JDate (propOrUndefined p ''start'')),
                           (''end'', JDate (propOrUndefined p ''end''))])
                    (spreadOf body)))"
  have m: "mapE backtestTrade ts = Inr (map ?g ts)"
    using assms(7) by (intro mapE_Inr) (simp add: backtestTrade_object)
  have pv: "propOrUndefined body ''period'' = p" "propOrUndefined body ''trades'' = JArr ts"
    using assms(2,6) by (simp_all add: propOrUndefined_def)
  have run: "runBacktest (Inr body) = Inr ?res"
    using assms(1,3,4,5)
    by (simp add: runBacktest_def getProp_object pv arrayMap_def m newDate_converts)
  have top: "\<forall>k. ownProp ?res k =
              (if k = ''trades'' then Some (JArr (map ?g ts))
               else if k = ''period''
               then Some (JObj [(''start'', JDate (propOrUndefined p ''start'')),
                                (''end'', JDate (propOrUndefined p ''end''))])
               else ownProp body k)"
    by (simp add: ownProp_update update_conv') (simp add: ownProp_def)
  have each: "\<forall>i < length ts. isObject (map ?g ts ! i) \<and>
              (\<forall>k. ownProp (map ?g ts ! i) k =
                 (if k = ''exitDate'' then Some (JDate (propOrUndefined (ts ! i) ''exitDate''))
                  else if k = ''entryDate''
                  then Some (JDate (propOrUndefined (ts ! i) ''entryDate''))
                  else ownProp (ts ! i) k))"
    by (simp add: ownProp_update update_conv') (simp add: ownProp_def)
  show ?thesis
    using run top each by (intro exI [of _ ?res] exI [of _ "map ?g ts"]) simp
qed

text \<open>
  Claim C9, as amended. When every item of the response is an object whose
  \<^verbatim>\<open>timestamp\<close> converts to a primitive, \<^verbatim>\<open>getHistoricalData\<close> returns as many objects,
  each with the properties of its item except that \<^verbatim>\<open>timestamp\<close> is the Date
  constructed from the item's. When the response of \<^verbatim>\<open>runBacktest\<close> is an object whose
  \<^verbatim>\<open>period\<close> is an object and whose \<^verbatim>\<open>trades\<close> is an array of objects, all with dates
  that convert to primitives, the result has the properties of the response except that
  \<^verbatim>\<open>period\<close> is a new object that holds the Dates constructed from the period's
  \<^verbatim>\<open>start\<close> and \<^verbatim>\<open>end\<close> and no other property, and \<^verbatim>\<open>trades\<close> holds as many trades, each
  with the properties of the response's trade except that \<^verbatim>\<open>entryDate\<close> and
  \<^verbatim>\<open>exitDate\<close> are the Dates constructed from the trade's.
\<close>

theorem mappers_change_only_dates:
  "((\<forall>x \<in> set items. isObject x \<and> \<not> toPrimitiveThrows (propOrUndefined x ''timestamp'')) \<longrightarrow>
      (\<exists>out. getHistoricalData (Inr (JArr items)) = Inr (JArr out) \<and>
           length out = length items \<and>
           (\<forall>i < length items. isObject (out ! i) \<and>
              (\<forall>k. ownProp (out ! i) k =
                 (if k = ''timestamp''
                  then Some (JDate (propOrUndefined (items ! i) ''timestamp''))
                  else ownProp (items ! i) k))))) \<and>
   (isObject body \<and> ownProp body ''period'' = Some p \<and> isObject p \<and>
    \<not> toPrimitiveThrows (propOrUndefined p ''start'') \<and>
    \<not> toPrimitiveThrows (propOrUndefined p ''end'') \<and>
    ownProp body ''trades'' = Some (JArr ts) \<and>
    (\<forall>x \<in> set ts. isObject x \<and> \<not> toPrimitiveThrows (propOrUndefined x ''entryDate'') \<and>
       \<not> toPrimitiveThrows (propOrUndefined x ''exitDate'')) \<longrightarrow>
      (\<exists>res out. runBacktest (Inr body) = Inr res \<and> isObject res \<and>
           (\<forall>k. ownProp res k =
              (if k = ''trades'' then Some (JArr out)
               else if k = ''period''
               then Some (JObj [(''start'', JDate (propOrUndefined p ''start'')),
                                (''end'', JDate (propOrUndefined p ''end''))])
               else ownProp body k)) \<and>
           length out = length ts \<and>
           (\<forall>i < length ts. isObject (out ! i) \<and>
              (\<forall>k. ownProp (out ! i) k =
                 (if k = ''exitDate'' then Some (JDate (propOrUndefined (ts ! i) ''exitDate''))
                  else if k = ''entryDate''
                  then Some (JDate (propOrUndefined (ts ! i) ''entryDate''))
                  else ownProp (ts ! i) k)))))"
proof (intro conjI impI)
  assume "\<forall>x \<in> set items. isObject x \<and> \<not> toPrimitiveThrows (propOrUndefined x ''timestamp'')"
  then show "\<exists>out. getHistoricalData (Inr (JArr items)) = Inr (JArr out) \<and>
           length out = length items \<and>
           (\<forall>i < length items. isObject (out ! i) \<and>
              (\<forall>k. ownProp (out ! i) k =
                 (if k = ''timestamp''
                  then Some (JDate (propOrUndefined (items ! i) ''timestamp''))
                  else ownProp (items ! i) k)))"
    by (rule getHistoricalData_frame)
next
  assume a: "isObject body \<and> ownProp body ''period'' = Some p \<and> isObject p \<and>
    \<not> toPrimitiveThrows (propOrUndefined p ''start'') \<and>
    \<not> toPrimitiveThrows (propOrUndefined p ''end'') \<and>
    ownProp body ''trades'' = Some (JArr ts) \<and>
    (\<forall>x \<in> set ts. isObject x \<and> \<not> toPrimitiveThrows (propOrUndefined x ''entryDate'') \<and>
       \<not> toPrimitiveThrows (propOrUndefined x ''exitDate''))"
  show "\<exists>res out. runBacktest (Inr body) = Inr res \<and> isObject res \<and>
           (\<forall>k. ownProp res k =
              (if k = ''trades'' then Some (JArr out)
               else if k = ''period''
               then Some (JObj [(''start'', JDate (propOrUndefined p ''start'')),
                                (''end'', JDate (propOrUndefined p ''end''))])
               else ownProp body k)) \<and>
           length out = length ts \<and>
           (\<forall>i < length ts. isObject (out ! i) \<and>
              (\<forall>k. ownProp (out ! i) k =
                 (if k = ''exitDate'' then Some (JDate (propOrUndefined (ts ! i) ''exitDate''))
                  else if k = ''entryDate''
                  then Some (JDate (propOrUndefined (ts ! i) ''entryDate''))
                  else ownProp (ts ! i) k)))"
    by (rule runBacktest_frame) (use a in simp_all)
qed

theorem mappers_change_only_dates_witness:
  "isObject (exampleBars ! 0) \<and>
   \<not> toPrimitiveThrows (propOrUndefined (exampleBars ! 0) ''timestamp'') \<and>
   (\<exists>out. getHistoricalData (Inr (JArr exampleBars)) = Inr (JArr out) \<and> length out = 1 \<and>
      ownProp (out ! 0) ''timestamp'' = Some (JDate (JStr ''2024-01-02T00:00:00Z'')) \<and>
      ownProp (out ! 0) ''close'' = Some (JNum (Fin 3))) \<and>
   isObject exampleBacktest \<and>
   (\<exists>res out. runBacktest (Inr exampleBacktest) = Inr res \<and>
      ownProp res ''totalReturn'' = Some (JNum (Fin 5)) \<and>
      ownProp res ''period'' =
        Some (JObj [(''start'', JDate (JStr ''2024-01-01'')), (''end'', JDate (JStr ''2024-06-30''))]) \<and>
      ownProp res ''trades'' = Some (JArr out) \<and> length out = 1 \<and>
      ownProp (out ! 0) ''entryDate'' = Some (JDate (JStr ''2024-02-01'')) \<and>
      ownProp (out ! 0) ''exitDate'' = Some (JDate (JStr ''2024-02-09'')) \<and>
      ownProp (out ! 0) ''pnl'' = Some (JNum (Fin 2)))"
proof -
  let ?p = "JObj [(''start'', JStr ''2024-01-01''), (''end'', JStr ''2024-06-30''),
                  (''label'', JStr ''H1 2024'')]"
  let ?t = "JObj [(''entryDate'', JStr ''2024-02-01''), (''exitDate'', JStr ''2024-02-09''),
                  (''pnl'', JNum (Fin 2))]"
  have h1: "\<forall>x \<in> set exampleBars.
              isObject x \<and> \<not> toPrimitiveThrows (propOrUndefined x ''timestamp'')"
    by (simp add: exampleBars_def propOrUndefined_def ownProp_def spreadOf_def)
  have h2: "isObject exampleBacktest \<and> ownProp exampleBacktest ''period'' = Some ?p \<and>
            isObject ?p \<and> \<not> toPrimitiveThrows (propOrUndefined ?p ''start'') \<and>
            \<not> toPrimitiveThrows (propOrUndefined ?p ''end'') \<and>
            ownProp exampleBacktest ''trades'' = Some (JArr [?t]) \<and>
            (\<forall>x \<in> set [?t]. isObject x \<and>
               \<not> toPrimitiveThrows (propOrUndefined x ''entryDate'') \<and>
               \<not> toPrimitiveThrows (propOrUndefined x ''exitDate''))"
    by (simp add: exampleBacktest_def propOrUndefined_def ownProp_def spreadOf_def)
  note both = mappers_change_only_dates [of exampleBars exampleBacktest ?p "[?t]"]
  from both h1 obtain out where
    a: "getHistoricalData (Inr (JArr exampleBars)) = Inr (JArr out)" "length out = length exampleBars"
       "\<forall>i < length exampleBars. isObject (out ! i) \<and>
              (\<forall>k. ownProp (out ! i) k =
                 (if k = ''timestamp''
                  then Some (JDate (propOrUndefined (exampleBars ! i) ''timestamp''))
                  else ownProp (exampleBars ! i) k))"
    by blast
  from both h2 obtain res outs where
    b: "runBacktest (Inr exampleBacktest) = Inr res"
       "\<forall>k. ownProp res k =
              (if k = ''trades'' then Some (JArr outs)
               else if k = ''period''
               then Some (JObj [(''start'', JDate (propOrUndefined ?p ''start'')),
                                (''end'', JDate (propOrUndefined ?p ''end''))])
               else ownProp exampleBacktest k)"
       "length outs = length [?t]"
       "\<forall>i < length [?t]. isObject (outs ! i) \<and>
              (\<forall>k. ownProp (outs ! i) k =
                 (if k = ''exitDate'' then Some (JDate (propOrUndefined ([?t] ! i) ''exitDate''))
                  else if k = ''entryDate''
                  then Some (JDate (propOrUndefined ([?t] ! i) ''entryDate''))
                  else ownProp ([?t] ! i) k))"
    by blast
  have a': "length out = 1"
       "ownProp (out ! 0) ''timestamp'' = Some (JDate (JStr ''2024-01-02T00:00:00Z''))"
       "ownProp (out ! 0) ''close'' = Some (JNum (Fin 3))"
    using a(2,3)
    by (simp_all add: exampleBars_def propOrUndefined_def ownProp_def spreadOf_def)
  have b': "ownProp res ''totalReturn'' = Some (JNum (Fin 5))"
       "ownProp res ''period'' =
          Some (JObj [(''start'', JDate (JStr ''2024-01-01'')), (''end'', JDate (JStr ''2024-06-30''))])"
       "ownProp res ''trades'' = Some (JArr outs)"
    using b(2)
    by (simp_all add: exampleBacktest_def propOrUndefined_def ownProp_def spreadOf_def)
  have c': "length outs = 1"
       "ownProp (outs ! 0) ''entryDate'' = Some (JDate (JStr ''2024-02-01''))"
       "ownProp (outs ! 0) ''exitDate'' = Some (JDate (JStr ''2024-02-09''))"
       "ownProp (outs ! 0) ''pnl'' = Some (JNum (Fin 2))"
    using b(3,4)
    by (simp_all add: propOrUndefined_def ownProp_def spreadOf_def)
  have o: "isObject (exampleBars ! 0)" "isObject exampleBacktest"
     "\<not> toPrimitiveThrows (propOrUndefined (exampleBars ! 0) ''timestamp'')"
    by (simp_all add: exampleBars_def exampleBacktest_def propOrUndefined_def ownProp_def
        spreadOf_def)
  show ?thesis
    using o a(1) a' b(1) b' c' by blast
qed

text \<open>
  The claim as written fails on a response whose period has a property beside its two
  dates: \<^verbatim>\<open>runBacktest\<close> builds the period of its result anew from \<^verbatim>\<open>start\<close> and
  \<^verbatim>\<open>end\<close>, so the label of the response's period is not in the result.
\<close>

theorem runBacktest_drops_period_label:
  "getProp exampleBacktest ''period'' =
     Inr (JObj [(''start'', JStr ''2024-01-01''), (''end'', JStr ''2024-06-30''),
                (''label'', JStr ''H1 2024'')]) \<and>
   runBacktest (Inr exampleBacktest) =
     Inr (JObj [(''totalReturn'', JNum (Fin 5)),
                (''period'', JObj [(''start'', JDate (JStr ''2024-01-01'')),
                                   (''end'', JDate (JStr ''2024-06-30''))]),
                (''trades'', JArr [JObj [(''entryDate'', JDate (JStr ''2024-02-01'')),
                                         (''exitDate'', JDate (JStr ''2024-02-09'')),
                                         (''pnl'', JNum (Fin 2))]])]) \<and>
   ownProp (JObj [(''start'', JDate (JStr ''2024-01-01'')), (''end'', JDate (JStr ''2024-06-30''))])
     ''label'' = None"
  by (simp add: exampleBacktest_def runBacktest_def getProp_def newDate_def arrayMap_def
      backtestTrade_def spreadOf_def ownProp_def)

section \<open>The forecast on screen\<close>






section \<open>The backtest simulator\<close>

lemma example_run:
  "simulateBacktest exampleSim exampleSeries 1000 =
     Inr (summarize exampleSim exampleSeries 1000 exampleTrades)"
  by (simp add: simulateBacktest_def validSeries_def exampleSeries_def exampleSim_def
      exampleTrades_def forceClose_def barStep_def openAt_def closeAt_def quote_def
      numeral_3_eq_3 numeral_2_eq_2 eval_nat_numeral)

text \<open>
  Claim C6. In the result of a run, the trade count is the number of trades, and the win
  rate is the number of trades with positive P&L divided by the trade count, and 0 when
  there is no trade.
\<close>

theorem win_rate_exact:
  assumes "simulateBacktest sim series capital = Inr r"
  shows "resTotalTrades r = length (resTrades r) \<and>
         resWinRate r =
           (if resTotalTrades r = 0 then 0
            else real (length (filter (\<lambda>t. 0 < pnl t) (resTrades r))) / real (resTotalTrades r))"
  using assms by (auto simp: simulateBacktest_def summarize_def winRateOf_def split: if_splits)

theorem win_rate_exact_witness:
  "simulateBacktest exampleSim exampleSeries 1000 =
     Inr (summarize exampleSim exampleSeries 1000 exampleTrades) \<and>
   resTotalTrades (summarize exampleSim exampleSeries 1000 exampleTrades) = 2 \<and>
   resWinRate (summarize exampleSim exampleSeries 1000 exampleTrades) = 1 / 2"
  using win_rate_exact [OF example_run] example_run
  by (simp add: summarize_def exampleTrades_def)

section \<open>One position at a time\<close>












lemma no_entry_on_the_final_bar:
  "simulateBacktest exampleSim [quote 1 10] 1000 =
     Inr (summarize exampleSim [quote 1 10] 1000 [])"
  by (simp add: simulateBacktest_def validSeries_def exampleSim_def forceClose_def barStep_def
      quote_def)

end
